theory Spec2Isabelle
  imports Main "HOL-Library.List_Lexorder" "HOL-Library.Char_ord"
begin

section \<open>Go library functions the sources call\<close>

text \<open>
  Go strings are byte sequences, as \<^typ>\<open>string\<close> is. \<open>strings.Split(s, "/")\<close> cuts
  \<open>s\<close> at every separator and keeps the empty pieces; the empty string gives one empty
  piece. The sources only split at the one-byte separator \<open>"/"\<close>, so the separator is a
  \<^typ>\<open>char\<close>. A byte other than the separator joins the first piece of what follows it
  (there always is one: a split is never empty).
\<close>

fun Split :: "string \<Rightarrow> char \<Rightarrow> string list" where
  "Split [] sep = [[]]"
| "Split (c # cs) sep =
     (if c = sep then [] # Split cs sep
      else (case Split cs sep of
              [] \<Rightarrow> [[c]]
            | piece # pieces \<Rightarrow> (c # piece) # pieces))"

text \<open>\<open>strings.Join(elems, sep)\<close>: the elements with \<open>sep\<close> between neighbours.\<close>

fun Join :: "string list \<Rightarrow> string \<Rightarrow> string" where
  "Join [] sep = []"
| "Join [x] sep = x"
| "Join (x # y # ys) sep = x @ sep @ Join (y # ys) sep"

text \<open>
  \<open>strings.Compare(a, b)\<close>: bytewise lexicographic comparison, \<open>-1\<close>, \<open>0\<close> or \<open>+1\<close>.
\<close>

fun Compare :: "string \<Rightarrow> string \<Rightarrow> int" where
  "Compare [] [] = 0"
| "Compare [] (b # bs) = - 1"
| "Compare (a # as) [] = 1"
| "Compare (a # as) (b # bs) =
     (if (of_char a :: nat) < of_char b then - 1
      else if (of_char b :: nat) < of_char a then 1
      else Compare as bs)"

text \<open>
  Log output leaves the program through a logger; it is kept as a value: the level, the
  format string and the arguments of the call.
\<close>

datatype log_level = ErrorLevel | WarnLevel | InfoLevel

datatype log_arg = ArgS string | ArgI int

datatype log_entry = Logf log_level string "log_arg list"


section \<open>publisher/Publisher.go: the publisher runtime\<close>

text \<open>
  \<open>messaging.ConfigAttr\<close> is declared outside the sources at hand; \<open>GetConfigValue\<close>
  reads its fields \<open>Value\<close> and \<open>Default\<close>.
\<close>

record ConfigAttr =
  Default :: string
  Value :: string

definition GetConfigValue :: "(string \<rightharpoonup> ConfigAttr) \<Rightarrow> string \<Rightarrow> string" where
  "GetConfigValue configMap attrName =
     (case configMap attrName of
        None \<Rightarrow> []
      | Some config \<Rightarrow> if Value config = [] then Default config else Value config)"

text \<open>
  The \<open>Publisher\<close> struct. A handler is a Go function value, possibly nil: a value of
  type \<open>'h option\<close>, run by the \<open>runHandler\<close> of the runtime below. The countdowns and
  intervals are Go \<open>int\<close>s; they are decremented once per second, so the ends of the
  64-bit range are out of reach and \<^typ>\<open>int\<close> stands for them. The fields holding
  collaborators' objects (logger, messenger, mutex, exit channel, node, input and output
  lists) are not part of the record: what the code does with them shows as events.
\<close>

record PublisherIdentity =
  Address :: string
  PublicKeySigning :: string
  Publisher :: string
  Timestamp :: string
  Zone :: string

record ('h, 'k) Publisher =
  discoverCountdown :: int
  discoveryInterval :: int
  discoveryHandler :: "'h option"
  persistFolder :: string
  pollHandler :: "'h option"
  pollCountdown :: int
  pollInterval :: int
  publisherID :: string
  PublisherNodeIdentity :: "PublisherIdentity option"
  signPrivateKey :: "'k option"
  ZoneID :: string
  isRunning :: bool

datatype 'h event =
    Log log_entry
  | MutexLock
  | MutexUnlock
  | ExitChannelSend bool
  | ExitChannelReceive
  | SleepSecond
  | GoHandler 'h
  | CallHandler 'h

definition SetDiscoveryInterval ::
  "int \<Rightarrow> 'h option \<Rightarrow> ('h, 'k) Publisher \<Rightarrow> 'h event list \<times> ('h, 'k) Publisher" where
  "SetDiscoveryInterval interval handler publisher =
     (let p1 = (if interval > 0 then publisher\<lparr>discoveryInterval := interval\<rparr> else publisher)
      in ([Log (Logf InfoLevel ''discovery interval = %d seconds'' [ArgI interval])],
          p1\<lparr>discoveryHandler := handler\<rparr>))"

definition SetPollingInterval ::
  "int \<Rightarrow> 'h option \<Rightarrow> ('h, 'k) Publisher \<Rightarrow> 'h event list \<times> ('h, 'k) Publisher" where
  "SetPollingInterval interval handler publisher =
     (let p1 = (if interval > 0 then publisher\<lparr>pollInterval := interval\<rparr> else publisher)
      in ([Log (Logf InfoLevel ''polling interval = %d seconds'' [ArgI interval])],
          p1\<lparr>pollHandler := handler\<rparr>))"

text \<open>
  \<open>Stop\<close>: the receive on the exit channel is the wait for the heartbeat loop's last
  send; it is the event \<^term>\<open>ExitChannelReceive\<close>.
\<close>

definition Stop :: "('h, 'k) Publisher \<Rightarrow> 'h event list \<times> ('h, 'k) Publisher" where
  "Stop publisher =
     (if isRunning publisher
      then ([Log (Logf WarnLevel ''Stopping publisher %s'' [ArgS (publisherID publisher)]),
             MutexLock, MutexUnlock, ExitChannelReceive,
             Log (Logf InfoLevel ''... bye bye'' [])],
            publisher\<lparr>isRunning := False\<rparr>)
      else ([Log (Logf WarnLevel ''Stopping publisher %s'' [ArgS (publisherID publisher)]),
             MutexLock, MutexUnlock,
             Log (Logf InfoLevel ''... bye bye'' [])],
            publisher))"


text \<open>
  The collaborators of the heartbeat loop. \<open>PublishUpdates\<close> and
  \<open>publishOutputValues\<close> are methods of the publisher declared in other files of the
  package; \<open>runHandler\<close> is the call of a handler function value on the publisher. Each
  one may change the publisher in any way.
\<close>

record ('h, 'k) runtime =
  PublishUpdates :: "('h, 'k) Publisher \<Rightarrow> ('h, 'k) Publisher"
  publishOutputValues :: "('h, 'k) Publisher \<Rightarrow> ('h, 'k) Publisher"
  runHandler :: "'h \<Rightarrow> ('h, 'k) Publisher \<Rightarrow> ('h, 'k) Publisher"

text \<open>
  The block "discover new nodes" of the loop body: the handler is started as a goroutine
  and not waited for, so only its dispatch shows (\<^term>\<open>GoHandler\<close>).
\<close>

definition discoverStep ::
  "('h, 'k) Publisher \<Rightarrow> 'h event list \<times> ('h, 'k) Publisher" where
  "discoverStep publisher =
     (case discoveryHandler publisher of
        Some handler \<Rightarrow>
          if discoverCountdown publisher \<le> 0
          then ([GoHandler handler],
                publisher\<lparr>discoverCountdown := discoveryInterval publisher\<rparr>)
          else ([], publisher)
      | None \<Rightarrow> ([], publisher))"

text \<open>
  The block "poll for values": the handler is called in the loop's own goroutine, and the
  countdown is set from the interval the publisher has after the call.
\<close>

definition pollStep ::
  "('h, 'k) runtime \<Rightarrow> ('h, 'k) Publisher \<Rightarrow> 'h event list \<times> ('h, 'k) Publisher" where
  "pollStep rt publisher =
     (case pollHandler publisher of
        Some handler \<Rightarrow>
          if pollCountdown publisher \<le> 0
          then (let p1 = runHandler rt handler publisher
                in ([CallHandler handler], p1\<lparr>pollCountdown := pollInterval p1\<rparr>))
          else ([], publisher)
      | None \<Rightarrow> ([], publisher))"

text \<open>One iteration of the \<open>for\<close> loop, up to the read of \<open>isRunning\<close> under the mutex.\<close>

definition heartbeatTick ::
  "('h, 'k) runtime \<Rightarrow> ('h, 'k) Publisher \<Rightarrow> 'h event list \<times> ('h, 'k) Publisher" where
  "heartbeatTick rt publisher =
     (let p1 = PublishUpdates rt publisher;
          p2 = publishOutputValues rt p1;
          (ev3, p3) = discoverStep p2;
          p4 = p3\<lparr>discoverCountdown := discoverCountdown p3 - 1\<rparr>;
          (ev5, p5) = pollStep rt p4;
          p6 = p5\<lparr>pollCountdown := pollCountdown p5 - 1\<rparr>
      in (SleepSecond # ev3 @ ev5 @ [MutexLock, MutexUnlock], p6))"

text \<open>
  The \<open>for\<close> loop. Only another goroutine ends it, by clearing \<open>isRunning\<close> (\<open>Stop\<close>
  does); the list \<open>stops\<close> says, for each iteration in turn, whether that has happened
  by the time the iteration reads the flag. The loop gives the events of each iteration,
  one list per iteration. When \<open>stops\<close> is used up and the flag is still set, the loop is
  still running: the result is \<^term>\<open>None\<close>.
\<close>

fun heartbeatLoop_for ::
  "('h, 'k) runtime \<Rightarrow> bool list \<Rightarrow> ('h, 'k) Publisher
    \<Rightarrow> ('h event list list \<times> ('h, 'k) Publisher) option" where
  "heartbeatLoop_for rt [] publisher = None"
| "heartbeatLoop_for rt (stop # stops) publisher =
     (let (ev, p1) = heartbeatTick rt publisher;
          p2 = (if stop then p1\<lparr>isRunning := False\<rparr> else p1)
      in if \<not> isRunning p2 then Some ([ev], p2)
         else (case heartbeatLoop_for rt stops p2 of
                 None \<Rightarrow> None
               | Some (evs, p3) \<Rightarrow> Some (ev # evs, p3)))"

definition heartbeatLoop ::
  "('h, 'k) runtime \<Rightarrow> bool list \<Rightarrow> ('h, 'k) Publisher
    \<Rightarrow> ('h event list \<times> ('h, 'k) Publisher) option" where
  "heartbeatLoop rt stops publisher =
     (case heartbeatLoop_for rt stops publisher of
        None \<Rightarrow> None
      | Some (evs, p1) \<Rightarrow>
          Some ([Log (Logf WarnLevel ''starting heartbeat loop'' []), ExitChannelSend False]
                @ concat evs
                @ [ExitChannelSend True,
                   Log (Logf WarnLevel ''Ending loop of publisher %s'' [ArgS (publisherID p1)])],
                p1))"


text \<open>
  A Go panic ends the call; it is the \<^term>\<open>Inl\<close> of a result. \<open>panic(msg)\<close> is
  \<^term>\<open>Panic msg\<close>; reading a field through a nil pointer is the run-time panic
  \<^term>\<open>NilPointerDereference\<close>.
\<close>

datatype panic = Panic string | NilPointerDereference

definition DefaultDiscoveryInterval :: int where
  "DefaultDiscoveryInterval = 24 * 3600"

definition DefaultPollInterval :: int where
  "DefaultPollInterval = 24 * 3600"

text \<open>
  \<open>NewPublisher\<close>. \<open>keygen\<close> is what \<open>ecdsa.GenerateKey\<close> returns: \<^term>\<open>Inl err\<close> for
  \<open>(nil, err)\<close>, \<^term>\<open>Inr k\<close> for \<open>(k, nil)\<close>. \<open>zoneID\<close> is \<open>sender.GetZone()\<close>,
  \<open>pubNodeAddress\<close> the address of the node \<open>nodes.NewNode\<close> made, \<open>timeStampStr\<close> the
  formatted clock reading, and \<open>EncodeKeys\<close> the function of package \<open>messenger\<close>, given
  the private key and the address of its public part. After a failed key generation the
  code logs and goes on to \<open>&privKey.PublicKey\<close> with \<open>privKey\<close> nil.
\<close>

definition NewPublisher ::
  "('k \<Rightarrow> string \<times> string) \<Rightarrow> string \<Rightarrow> string \<Rightarrow> string \<Rightarrow> string \<Rightarrow> string
    \<Rightarrow> string + 'k \<Rightarrow> 'h event list \<times> (panic + ('h, 'k) Publisher)" where
  "NewPublisher EncodeKeys zoneID pubNodeAddress timeStampStr publisherID' persistFolder' keygen =
     (let publisher =
            \<lparr>discoverCountdown = 0,
             discoveryInterval = DefaultDiscoveryInterval,
             discoveryHandler = None,
             persistFolder = persistFolder',
             pollHandler = None,
             pollCountdown = 1,
             pollInterval = DefaultPollInterval,
             publisherID = publisherID',
             PublisherNodeIdentity = None,
             signPrivateKey = None,
             ZoneID = zoneID,
             isRunning = False\<rparr>;
          privKey = (case keygen of Inl err \<Rightarrow> None | Inr k \<Rightarrow> Some k);
          p1 = publisher\<lparr>signPrivateKey := privKey\<rparr>;
          ev = (case keygen of
                  Inl err \<Rightarrow>
                    [Log (Logf ErrorLevel ''Failed to create keys for signing: %s'' [ArgS err])]
                | Inr k \<Rightarrow> [])
      in case privKey of
           None \<Rightarrow> (ev, Inl NilPointerDereference)
         | Some k \<Rightarrow>
             (let (privStr, pubStr) = EncodeKeys k
              in (ev,
                  Inr (p1\<lparr>PublisherNodeIdentity :=
                            Some \<lparr>Address = pubNodeAddress,
                                  PublicKeySigning = pubStr,
                                  Publisher = publisherID',
                                  Timestamp = timeStampStr,
                                  Zone = zoneID\<rparr>\<rparr>))))"


section \<open>inputs.PublishSetInput and nodes.PublishNodeConfigure\<close>

text \<open>
  Both functions hand one object to \<open>messageSigner.PublishObject\<close>. The calls made are
  the \<open>published\<close> part of the outcome; \<open>messageSigner\<close> gives the error a call
  returns. \<open>returned\<close> is the error handed to the caller: \<open>PublishNodeConfigure\<close>
  declares no result, so it hands back none on any path. The message type constants of
  package \<open>types\<close> and the formatted clock reading are parameters.
\<close>

record SetInputMessage =
  Address :: string
  Sender :: string
  Timestamp :: string
  Value :: string

record 'a NodeConfigureMessage =
  Address :: string
  Sender :: string
  Timestamp :: string
  Attr :: 'a

datatype 'a published_object =
    SetInputObject SetInputMessage
  | NodeConfigureObject "'a NodeConfigureMessage"

datatype ('a, 'k) PublishObject_call =
  PublishObject string bool "'a published_object" "'k option"

record ('a, 'k) outcome =
  returned :: "string option"
  logged :: "log_entry list"
  published :: "('a, 'k) PublishObject_call list"

definition PublishSetInput ::
  "string \<Rightarrow> (('a, 'k) PublishObject_call \<Rightarrow> string option) \<Rightarrow> string
    \<Rightarrow> string \<Rightarrow> string \<Rightarrow> string \<Rightarrow> 'k option \<Rightarrow> ('a, 'k) outcome" where
  "PublishSetInput MessageTypeSetInput messageSigner timeStampStr
       destination val sender encryptionKey =
     (let segments = Split destination CHR ''/''
      in if length segments < 6
         then (let errText =
                     ''PublishSetInput: Can'' @ [CHR 0x27]
                     @ ''t publish SetInput message as the destination address ''
                     @ [CHR 0x27] @ destination @ [CHR 0x27] @ '' is incomplete''
               in \<lparr>returned = Some errText,
                   logged = [Logf ErrorLevel errText []],
                   published = []\<rparr>)
         else (let segments1 = segments[5 := MessageTypeSetInput];
                   inputAddr = Join segments1 ''/'';
                   setMessage =
                     \<lparr>SetInputMessage.Address = inputAddr,
                      SetInputMessage.Sender = sender,
                      SetInputMessage.Timestamp = timeStampStr,
                      Value = val\<rparr>;
                   call = PublishObject inputAddr False (SetInputObject setMessage) encryptionKey
               in \<lparr>returned = messageSigner call, logged = [], published = [call]\<rparr>))"

definition PublishNodeConfigure ::
  "string \<Rightarrow> (('a, 'k) PublishObject_call \<Rightarrow> string option) \<Rightarrow> string
    \<Rightarrow> string \<Rightarrow> 'a \<Rightarrow> string \<Rightarrow> 'k option \<Rightarrow> ('a, 'k) outcome" where
  "PublishNodeConfigure MessageTypeConfigure messageSigner timeStampStr
       destinationAddress attr sender encryptionKey =
     (let info = Logf InfoLevel
                   ''PublishNodeConfigure: publishing encrypted configuration to %s''
                   [ArgS destinationAddress];
          segments = Split destinationAddress CHR ''/''
      in if length segments < 4
         then \<lparr>returned = None, logged = [info], published = []\<rparr>
         else (let segments1 = segments[3 := MessageTypeConfigure];
                   configAddr = Join segments1 ''/'';
                   configureMessage =
                     \<lparr>NodeConfigureMessage.Address = configAddr,
                      NodeConfigureMessage.Sender = sender,
                      NodeConfigureMessage.Timestamp = timeStampStr,
                      Attr = attr\<rparr>;
                   call = PublishObject configAddr False
                            (NodeConfigureObject configureMessage) encryptionKey
               in \<lparr>returned = None, logged = [info], published = [call]\<rparr>))"


section \<open>The publisher identity (handleIdentityUpdate to SetupPublisherIdentity)\<close>

text \<open>
  The identity documents of package \<open>types\<close>, with the fields the code reads and writes.
  \<open>PublisherFullIdentity\<close> embeds \<open>PublisherIdentityMessage\<close> and adds the private key
  in PEM form.
\<close>

record PublisherPublicIdentity =
  Domain :: string
  IssuerName :: string
  Location :: string
  Organization :: string
  PublicKey :: string
  PublisherID :: string
  Timestamp :: string
  ValidUntil :: string

record PublisherIdentityMessage =
  Address :: string
  Public :: PublisherPublicIdentity
  IdentitySignature :: string
  Sender :: string
  SignerName :: string
  Timestamp :: string

record PublisherFullIdentity = PublisherIdentityMessage +
  PrivateKey :: string

text \<open>
  What the identity code takes from outside its file: packages \<open>messenger\<close>,
  \<open>publishers\<close>, \<open>persist\<close> and \<open>types\<close> of the repository, and the Go library
  (\<open>time\<close>, \<open>ioutil\<close>, \<open>os\<close>, \<open>json\<close>). \<open>'k\<close> is an ECDSA private key (its public
  key is a part of it), \<open>'d\<close> the directory of known publishers whose
  \<open>GetPublisherKey\<close> is handed to \<open>VerifySender\<close>, \<open>'fs\<close> the file system. A time is a
  count of nanoseconds; \<open>Format\<close> is \<open>Time.Format(types.TimeFormat)\<close>.
  \<open>DecryptMessage\<close> returns \<open>(isEncrypted, dmessage, err)\<close>; \<open>VerifySender\<close> returns
  \<open>(isSigned, err)\<close> and the identity it decoded into its second argument.
\<close>

record ('k, 'd, 'fs) deps =
  DecryptMessage :: "string \<Rightarrow> 'k option \<Rightarrow> bool \<times> string \<times> string option"
  VerifySender :: "string \<Rightarrow> 'd \<Rightarrow> bool \<times> string option \<times> PublisherFullIdentity"
  PrivateKeyFromPem :: "string \<Rightarrow> 'k option"
  PrivateKeyToPem :: "'k \<Rightarrow> string"
  PublicKeyToPem :: "'k \<Rightarrow> string"
  SignEncodeIdentity :: "PublisherPublicIdentity \<Rightarrow> 'k \<Rightarrow> string"
  MakePublisherIdentityAddress :: "string \<Rightarrow> string \<Rightarrow> string"
  DSSPublisherID :: string
  DefaultConfigFolder :: string
  Format :: "int \<Rightarrow> string"
  ReadFile :: "string \<Rightarrow> 'fs \<Rightarrow> string + string"
  Unmarshal :: "string \<Rightarrow> string + PublisherFullIdentity"
  MarshalIndent :: "PublisherFullIdentity \<Rightarrow> string"
  Remove :: "string \<Rightarrow> 'fs \<Rightarrow> 'fs"
  WriteFile :: "string \<Rightarrow> string \<Rightarrow> 'fs \<Rightarrow> string option \<times> 'fs"

text \<open>
  The fields of the publisher that \<open>handleIdentityUpdate\<close> uses (this file belongs to a
  later state of the package than \<open>Publisher.go\<close>; the struct it extends is not among the
  sources). \<open>domain\<close> is what the accessor \<open>Domain()\<close> returns.
\<close>

record ('k, 'd) IdentityPublisher =
  domain :: string
  domainPublishers :: 'd
  fullIdentity :: "PublisherFullIdentity option"
  identityPrivateKey :: "'k option"

definition handleIdentityUpdate ::
  "('k, 'd, 'fs) deps \<Rightarrow> string \<Rightarrow> string \<Rightarrow> ('k, 'd) IdentityPublisher
    \<Rightarrow> log_entry list \<times> ('k, 'd) IdentityPublisher" where
  "handleIdentityUpdate env address message publisher =
     (let (isEncrypted, dmessage, err) =
            DecryptMessage env message (identityPrivateKey publisher)
      in if \<not> isEncrypted
         then ([Logf WarnLevel
                  (''handleIdentityUpdate: message to '' @ [CHR 0x27] @ ''%s'' @ [CHR 0x27]
                   @ '' must be encrypted but isn'' @ [CHR 0x27] @ ''t. Message discarded.'')
                  [ArgS address]], publisher)
         else if err \<noteq> None
         then ([Logf WarnLevel
                  (''handleIdentityUpdate: decryption failed of message to '' @ [CHR 0x27]
                   @ ''%s'' @ [CHR 0x27] @ ''. Message discarded.'')
                  [ArgS address]], publisher)
         else
          (let (isSigned, err1, fullIdentity1) =
                 VerifySender env dmessage (domainPublishers publisher)
           in if \<not> isSigned
              then ([Logf WarnLevel
                       (''handleIdentityUpdate: Identity update '' @ [CHR 0x27] @ ''%s''
                        @ [CHR 0x27] @ '' is not signed. Message discarded.'')
                       [ArgS address]], publisher)
              else if err1 \<noteq> None
              then ([Logf WarnLevel
                       ''handleIdentityUpdate: Signature verification failed for  %s. Message discarded.''
                       [ArgS address]], publisher)
              else
               (let dssAddress =
                      MakePublisherIdentityAddress env (domain publisher) (DSSPublisherID env);
                    warned =
                      (if Sender fullIdentity1 \<noteq> dssAddress
                       then [Logf WarnLevel
                               ''handleIdentityUpdate: Sender is %s instead of the DSS. Identity update discarded.''
                               [ArgS (Sender fullIdentity1)]]
                       else []);
                    privKey = PrivateKeyFromPem env (PrivateKey fullIdentity1)
                in (warned,
                    publisher\<lparr>identityPrivateKey := privKey,
                               fullIdentity := Some fullIdentity1\<rparr>))))"

text \<open>
  \<open>CreateIdentity\<close>. \<open>now1\<close> and \<open>now2\<close> are its two readings of the clock, \<open>keygen\<close>
  what \<open>ecdsa.GenerateKey\<close> returns.
\<close>

definition Hour :: int where
  "Hour = 3600 * 1000000000"

definition CreateIdentity ::
  "('k, 'd, 'fs) deps \<Rightarrow> string \<Rightarrow> string \<Rightarrow> int \<Rightarrow> int \<Rightarrow> string + 'k
    \<Rightarrow> panic + PublisherFullIdentity \<times> 'k" where
  "CreateIdentity env domain' publisherID' now1 now2 keygen =
     (let timestampStr = Format env now1;
          validUntil = now2 + Hour * 24 * 365;
          validUntilStr = Format env validUntil
      in case keygen of
           Inl err \<Rightarrow>
             Inl (Panic (''Unable to generate a private signing key. Can'' @ [CHR 0x27]
                         @ ''t continue without it.''))
         | Inr privKey \<Rightarrow>
             (let pubSigningStr = PublicKeyToPem env privKey;
                  addr = MakePublisherIdentityAddress env domain' publisherID';
                  publicIdentity =
                    \<lparr>Domain = domain',
                     IssuerName = publisherID',
                     Location = ''local'',
                     Organization = [],
                     PublicKey = pubSigningStr,
                     PublisherID = publisherID',
                     PublisherPublicIdentity.Timestamp = timestampStr,
                     ValidUntil = validUntilStr\<rparr>;
                  identitySignature = SignEncodeIdentity env publicIdentity privKey
              in Inr (\<lparr>Address = addr,
                       Public = publicIdentity,
                       IdentitySignature = identitySignature,
                       Sender = [],
                       SignerName = publisherID',
                       Timestamp = timestampStr,
                       PrivateKey = PrivateKeyToPem env privKey\<rparr>,
                      privKey)))"

definition IsIdentityExpired ::
  "('k, 'd, 'fs) deps \<Rightarrow> int \<Rightarrow> PublisherPublicIdentity \<Rightarrow> bool" where
  "IsIdentityExpired env now identity =
     (let timestampStr = Format env now;
          nowIsGreater = Compare timestampStr (ValidUntil identity)
      in nowIsGreater > 0)"





section \<open>The timestamp format\<close>

text \<open>
  Modelled from the spec: \<open>types.TimeFormat\<close>, a constant of package \<open>types\<close>, is not
  among the sources. The spec gives the timestamp as the fixed zero-padded format
  \<open>YYYY-MM-DDTHH:mm:ss.sss+HHMM\<close> (the zone offset with its sign). A \<open>stamp\<close> is a
  broken-down local time with its zone suffix; \<open>formatStamp\<close> writes it in that format,
  \<open>pad w n\<close> being the last \<open>w\<close> decimal digits of \<open>n\<close>. \<open>stampFields\<close> lists the
  fields from the year down, so that the order of two such lists is the order of the two
  local times; \<open>validStamp\<close> bounds the fields by their widths and calendar ranges.
\<close>

record stamp =
  year :: nat
  month :: nat
  day :: nat
  hour :: nat
  minute :: nat
  second :: nat
  milli :: nat
  zone :: string

definition digit :: "nat \<Rightarrow> char" where
  "digit d = ''0123456789'' ! d"

fun pad :: "nat \<Rightarrow> nat \<Rightarrow> string" where
  "pad 0 n = []"
| "pad (Suc w) n = pad w (n div 10) @ [digit (n mod 10)]"

definition formatStamp :: "stamp \<Rightarrow> string" where
  "formatStamp t =
     pad 4 (year t) @ ''-'' @ pad 2 (month t) @ ''-'' @ pad 2 (day t) @ ''T''
     @ pad 2 (hour t) @ '':'' @ pad 2 (minute t) @ '':'' @ pad 2 (second t)
     @ ''.'' @ pad 3 (milli t) @ zone t"

definition stampFields :: "stamp \<Rightarrow> nat list" where
  "stampFields t = [year t, month t, day t, hour t, minute t, second t, milli t]"

definition validStamp :: "stamp \<Rightarrow> bool" where
  "validStamp t =
     (year t \<le> 9999 \<and> 1 \<le> month t \<and> month t \<le> 12 \<and> 1 \<le> day t \<and> day t \<le> 31
      \<and> hour t < 24 \<and> minute t < 60 \<and> second t < 60 \<and> milli t < 1000)"


section \<open>Test doubles\<close>

text \<open>
  \<open>Publisher_test.go\<close> builds its publishers with \<open>NewPublisher\<close> for the domain
  \<open>"test"\<close> and the id \<open>"publisher1"\<close>; \<open>pub1\<close> is the struct literal of
  \<open>NewPublisher\<close> for these, with unit handlers and keys.
\<close>

definition pub1 :: "(unit, unit) Publisher" where
  "pub1 =
     \<lparr>discoverCountdown = 0,
      discoveryInterval = DefaultDiscoveryInterval,
      discoveryHandler = None,
      persistFolder = ''../test'',
      pollHandler = None,
      pollCountdown = 1,
      pollInterval = DefaultPollInterval,
      publisherID = ''publisher1'',
      PublisherNodeIdentity = None,
      signPrivateKey = None,
      ZoneID = ''test'',
      isRunning = False\<rparr>"


text \<open>
  Stand-ins for the collaborators of the identity code, to run it on concrete inputs. An
  identity document is stored as its fields joined by \<open>|\<close>. A key is its PEM text. A
  message counts as encrypted when it starts with \<open>E\<close>, and decrypts to the rest when
  the receiver has a private key; every message that decodes to an identity document
  counts as signed by a known sender. Files are a map from path to content. The clock
  only tells the year: time \<open>0\<close> is 2020-06-01T10:00:00.000-0700.
\<close>

definition emptyIdentity :: PublisherFullIdentity where
  "emptyIdentity =
     \<lparr>Address = [],
      Public = \<lparr>Domain = [], IssuerName = [], Location = [], Organization = [],
                PublicKey = [], PublisherID = [], PublisherPublicIdentity.Timestamp = [],
                ValidUntil = []\<rparr>,
      IdentitySignature = [], Sender = [], SignerName = [], Timestamp = [],
      PrivateKey = []\<rparr>"

definition encodeIdentity :: "PublisherFullIdentity \<Rightarrow> string" where
  "encodeIdentity identity =
     Join [Address identity,
           Domain (Public identity), IssuerName (Public identity),
           Location (Public identity), Organization (Public identity),
           PublicKey (Public identity), PublisherID (Public identity),
           PublisherPublicIdentity.Timestamp (Public identity), ValidUntil (Public identity),
           IdentitySignature identity, Sender identity, SignerName identity,
           Timestamp identity, PrivateKey identity] ''|''"

definition decodeIdentity :: "string \<Rightarrow> string + PublisherFullIdentity" where
  "decodeIdentity bytes =
     (case Split bytes CHR ''|'' of
        [x1, x2, x3, x4, x5, x6, x7, x8, x9, x10, x11, x12, x13, x14] \<Rightarrow>
          Inr \<lparr>Address = x1,
               Public = \<lparr>Domain = x2, IssuerName = x3, Location = x4,
                         Organization = x5, PublicKey = x6, PublisherID = x7,
                         PublisherPublicIdentity.Timestamp = x8, ValidUntil = x9\<rparr>,
               IdentitySignature = x10, Sender = x11, SignerName = x12, Timestamp = x13,
               PrivateKey = x14\<rparr>
      | _ \<Rightarrow> Inl ''unexpected end of JSON input'')"

definition testDeps :: "(string, unit, string \<rightharpoonup> string) deps" where
  "testDeps =
     \<lparr>DecryptMessage =
        (\<lambda>message key.
           case message of
             [] \<Rightarrow> (False, [], None)
           | c # rest \<Rightarrow>
               if c \<noteq> CHR ''E'' then (False, message, None)
               else if key = None then (True, [], Some ''no private key'')
               else (True, rest, None)),
      VerifySender =
        (\<lambda>dmessage directory.
           case decodeIdentity dmessage of
             Inl err \<Rightarrow> (False, Some err, emptyIdentity)
           | Inr identity \<Rightarrow> (True, None, identity)),
      PrivateKeyFromPem = (\<lambda>pem. if pem = [] then None else Some pem),
      PrivateKeyToPem = (\<lambda>key. key),
      PublicKeyToPem = (\<lambda>key. ''public-'' @ key),
      SignEncodeIdentity = (\<lambda>identity key. ''signed-'' @ key),
      MakePublisherIdentityAddress = (\<lambda>d p. d @ ''/'' @ p @ ''/$identity''),
      DSSPublisherID = ''$dss'',
      DefaultConfigFolder = ''.config/iotc'',
      Format =
        (\<lambda>t. formatStamp
               \<lparr>year = 2020 + nat (t div (Hour * 24 * 365)), month = 6, day = 1,
                hour = 10, minute = 0, second = 0, milli = 0, zone = ''-0700''\<rparr>),
      ReadFile =
        (\<lambda>path fs. case fs path of
                      None \<Rightarrow> Inl ''no such file or directory''
                    | Some bytes \<Rightarrow> Inr bytes),
      Unmarshal = decodeIdentity,
      MarshalIndent = encodeIdentity,
      Remove = (\<lambda>path fs. fs(path := None)),
      WriteFile = (\<lambda>path bytes fs. (None, fs(path \<mapsto> bytes)))\<rparr>"

definition forgedIdentity :: PublisherFullIdentity where
  "forgedIdentity =
     \<lparr>Address = ''test/publisher1/$identity'',
      Public = \<lparr>Domain = ''test'', IssuerName = ''mallory'', Location = ''local'',
                Organization = [], PublicKey = ''public-mallory'',
                PublisherID = ''publisher1'',
                PublisherPublicIdentity.Timestamp = ''2020-06-01T10:00:00.000-0700'',
                ValidUntil = ''2021-06-01T10:00:00.000-0700''\<rparr>,
      IdentitySignature = ''signed-mallory'',
      Sender = ''test/mallory/$identity'',
      SignerName = ''mallory'',
      Timestamp = ''2020-06-01T10:00:00.000-0700'',
      PrivateKey = ''mallory''\<rparr>"

definition identityPub1 :: "(string, unit) IdentityPublisher" where
  "identityPub1 =
     \<lparr>domain = ''test'', domainPublishers = (), fullIdentity = None,
      identityPrivateKey = Some ''key1''\<rparr>"


definition noon :: stamp where
  "noon = \<lparr>year = 2020, month = 6, day = 1, hour = 10, minute = 0, second = 0, milli = 0,
           zone = ''-0700''\<rparr>"


section \<open>Splitting and joining addresses\<close>

lemma Split_not_Nil: "Split s sep \<noteq> []"
  by (induction s) (auto split: list.splits)

lemma Split_segment_free: "x \<in> set (Split s sep) \<Longrightarrow> sep \<notin> set x"
proof (induction s arbitrary: x)
  case Nil
  then show ?case by simp
next
  case (Cons c cs)
  obtain y ys where sp: "Split cs sep = y # ys"
    using Split_not_Nil [of cs sep] by (cases "Split cs sep") auto
  show ?case
  proof (cases "c = sep")
    case True
    with Cons show ?thesis by auto
  next
    case False
    with Cons.prems sp have "x = c # y \<or> x \<in> set ys" by simp
    moreover have "sep \<notin> set y" using Cons.IH [of y] sp by simp
    moreover have "x \<in> set ys \<Longrightarrow> sep \<notin> set x" using Cons.IH [of x] sp by simp
    ultimately show ?thesis using False by auto
  qed
qed

lemma Split_free: "sep \<notin> set x \<Longrightarrow> Split x sep = [x]"
  by (induction x) auto

lemma Split_append_sep:
  "sep \<notin> set x \<Longrightarrow> Split (x @ sep # s) sep = x # Split s sep"
  by (induction x) auto

lemma Split_Join:
  "xs \<noteq> [] \<Longrightarrow> \<forall>x \<in> set xs. sep \<notin> set x \<Longrightarrow> Split (Join xs [sep]) sep = xs"
proof (induction xs "[sep]" rule: Join.induct)
  case 1
  then show ?case by simp
next
  case (2 x)
  then show ?case by (simp add: Split_free)
next
  case (3 x y ys)
  then show ?case by (simp add: Split_append_sep)
qed

lemma Join_Split: "Join (Split s sep) [sep] = s"
proof (induction s)
  case Nil
  then show ?case by simp
next
  case (Cons c cs)
  obtain y ys where sp: "Split cs sep = y # ys"
    using Split_not_Nil [of cs sep] by (cases "Split cs sep") auto
  show ?case
  proof (cases "c = sep")
    case True
    with Cons sp show ?thesis by simp
  next
    case False
    with Cons sp show ?thesis by (cases ys) auto
  qed
qed

lemma Split_update_Join:
  assumes "sep \<notin> set t"
  shows "Split (Join ((Split s sep)[i := t]) [sep]) sep = (Split s sep)[i := t]"
proof (rule Split_Join)
  show "(Split s sep)[i := t] \<noteq> []" by (simp add: Split_not_Nil)
  show "\<forall>x\<in>set ((Split s sep)[i := t]). sep \<notin> set x"
  proof
    fix x assume "x \<in> set ((Split s sep)[i := t])"
    then have "x = t \<or> x \<in> set (Split s sep)"
      using set_update_subset_insert [of "Split s sep" i t] by auto
    then show "sep \<notin> set x" using assms Split_segment_free by auto
  qed
qed


section \<open>Order of formatted timestamps\<close>

lemma pad_numeral: "pad (numeral k) n = pad (pred_numeral k) (n div 10) @ [digit (n mod 10)]"
proof -
  have "pad (Suc (pred_numeral k)) n = pad (pred_numeral k) (n div 10) @ [digit (n mod 10)]"
    by (rule pad.simps)
  then show ?thesis by (simp only: numeral_eq_Suc [of k])
qed

lemma digit_less: "d < 10 \<Longrightarrow> e < 10 \<Longrightarrow> (digit d < digit e) = (d < e)"
proof -
  assume "d < 10" "e < 10"
  then have "d \<in> {0,1,2,3,4,5,6,7,8,9}" "e \<in> {0,1,2,3,4,5,6,7,8,9}" by auto
  then show ?thesis by (auto simp: digit_def less_char_def)
qed

lemma digit_eq: "d < 10 \<Longrightarrow> e < 10 \<Longrightarrow> (digit d = digit e) = (d = e)"
proof -
  assume "d < 10" "e < 10"
  then have "d \<in> {0,1,2,3,4,5,6,7,8,9}" "e \<in> {0,1,2,3,4,5,6,7,8,9}" by auto
  then show ?thesis by (auto simp: digit_def)
qed

lemma length_pad: "length (pad w n) = w"
  by (induction w arbitrary: n) auto

lemma append_less_append_same_length:
  "length x = length y \<Longrightarrow> (x @ s < y @ t) = (x < y \<or> x = y \<and> s < t)"
  by (induction x y rule: list_induct2) auto

lemma pad_eq: "n < 10 ^ w \<Longrightarrow> m < 10 ^ w \<Longrightarrow> (pad w n = pad w m) = (n = m)"
proof (induction w arbitrary: n m)
  case 0
  then show ?case by simp
next
  case (Suc w)
  have "n div 10 < 10 ^ w" "m div 10 < 10 ^ w"
    using Suc.prems by (auto simp: less_mult_imp_div_less mult.commute)
  then have "(pad w (n div 10) = pad w (m div 10)) = (n div 10 = m div 10)" by (rule Suc.IH)
  moreover have "(digit (n mod 10) = digit (m mod 10)) = (n mod 10 = m mod 10)"
    by (rule digit_eq) auto
  moreover have "(n = m) = (n div 10 = m div 10 \<and> n mod 10 = m mod 10)"
    by (metis div_mult_mod_eq)
  ultimately show ?case by (simp add: length_pad)
qed

lemma pad_less: "n < 10 ^ w \<Longrightarrow> m < 10 ^ w \<Longrightarrow> (pad w n < pad w m) = (n < m)"
proof (induction w arbitrary: n m)
  case 0
  then show ?case by simp
next
  case (Suc w)
  have b: "n div 10 < 10 ^ w" "m div 10 < 10 ^ w"
    using Suc.prems by (auto simp: less_mult_imp_div_less mult.commute)
  then have "(pad w (n div 10) < pad w (m div 10)) = (n div 10 < m div 10)" by (rule Suc.IH)
  moreover have "(pad w (n div 10) = pad w (m div 10)) = (n div 10 = m div 10)"
    using b by (rule pad_eq)
  moreover have "(digit (n mod 10) < digit (m mod 10)) = (n mod 10 < m mod 10)"
    by (rule digit_less) auto
  moreover have "(n < m) = (n div 10 < m div 10 \<or> n div 10 = m div 10 \<and> n mod 10 < m mod 10)"
  proof -
    have n: "n = 10 * (n div 10) + n mod 10" and m: "m = 10 * (m div 10) + m mod 10" by simp_all
    have "n mod 10 < 10" "m mod 10 < 10" by simp_all
    then show ?thesis using n m by linarith
  qed
  ultimately show ?case by (simp add: length_pad append_less_append_same_length)
qed

lemma pad_block_less:
  "n < 10 ^ w \<Longrightarrow> m < 10 ^ w \<Longrightarrow>
   (pad w n @ s < pad w m @ t) = (n < m \<or> n = m \<and> s < t)"
  by (simp add: append_less_append_same_length length_pad pad_less pad_eq)

lemma formatStamp_less:
  assumes "validStamp t" and "validStamp u" and "zone t = zone u"
  shows "(formatStamp u < formatStamp t) = (stampFields u < stampFields t)"
proof -
  have t: "year t < 10 ^ 4" "month t < 10 ^ 2" "day t < 10 ^ 2" "hour t < 10 ^ 2"
      "minute t < 10 ^ 2" "second t < 10 ^ 2" "milli t < 10 ^ 3"
    using assms(1) by (simp_all add: validStamp_def)
  have u: "year u < 10 ^ 4" "month u < 10 ^ 2" "day u < 10 ^ 2" "hour u < 10 ^ 2"
      "minute u < 10 ^ 2" "second u < 10 ^ 2" "milli u < 10 ^ 3"
    using assms(2) by (simp_all add: validStamp_def)
  show ?thesis
    unfolding formatStamp_def stampFields_def
    using assms(3)
    by (simp only: pad_block_less [OF u(1) t(1)] pad_block_less [OF u(2) t(2)]
        pad_block_less [OF u(3) t(3)] pad_block_less [OF u(4) t(4)]
        pad_block_less [OF u(5) t(5)] pad_block_less [OF u(6) t(6)]
        pad_block_less [OF u(7) t(7)] append_Cons append_Nil Cons_less_Cons
        less_irrefl simp_thms)
qed

lemma Compare_pos: "(0 < Compare a b) = (b < a)"
  by (induction a b rule: Compare.induct) (auto simp: less_char_def)


section \<open>The heartbeat loop\<close>









section \<open>The checks of handleIdentityUpdate\<close>

lemma handleIdentityUpdate_failed_check:
  assumes "DecryptMessage env message (identityPrivateKey publisher) = (isEncrypted, dmessage, err)"
    and "VerifySender env dmessage (domainPublishers publisher) = (isSigned, err1, identity)"
    and "\<not> isEncrypted \<or> err \<noteq> None \<or> \<not> isSigned \<or> err1 \<noteq> None"
  shows "snd (handleIdentityUpdate env address message publisher) = publisher"
  using assms by (auto simp: handleIdentityUpdate_def)

lemma handleIdentityUpdate_checks_passed:
  assumes "DecryptMessage env message (identityPrivateKey publisher) = (True, dmessage, None)"
    and "VerifySender env dmessage (domainPublishers publisher) = (True, None, identity)"
  shows "snd (handleIdentityUpdate env address message publisher)
         = publisher\<lparr>identityPrivateKey := PrivateKeyFromPem env (PrivateKey identity),
                      fullIdentity := Some identity\<rparr>"
  using assms by (simp add: handleIdentityUpdate_def Let_def)


section \<open>Properties of the publisher runtime\<close>

text \<open>
  C9. \<open>GetConfigValue\<close> returns the empty string when the attribute is absent from the
  map, the attribute's \<open>Default\<close> when its \<open>Value\<close> is the empty string, and its
  \<open>Value\<close> otherwise.
\<close>

theorem GetConfigValue_cases:
  "(configMap attrName = None \<longrightarrow> GetConfigValue configMap attrName = [])
   \<and> (\<forall>config. configMap attrName = Some config \<and> ConfigAttr.Value config = []
         \<longrightarrow> GetConfigValue configMap attrName = Default config)
   \<and> (\<forall>config. configMap attrName = Some config \<and> ConfigAttr.Value config \<noteq> []
         \<longrightarrow> GetConfigValue configMap attrName = ConfigAttr.Value config)"
  by (simp add: GetConfigValue_def)

theorem GetConfigValue_cases_witness:
  "GetConfigValue Map.empty ''gain'' = []
   \<and> GetConfigValue [''gain'' \<mapsto> \<lparr>Default = ''1'', ConfigAttr.Value = []\<rparr>] ''gain'' = ''1''
   \<and> GetConfigValue [''gain'' \<mapsto> \<lparr>Default = ''1'', ConfigAttr.Value = ''7''\<rparr>] ''gain'' = ''7''"
  using GetConfigValue_cases [of Map.empty "''gain''"]
    GetConfigValue_cases [of "[''gain'' \<mapsto> \<lparr>Default = ''1'', ConfigAttr.Value = []\<rparr>]" "''gain''"]
    GetConfigValue_cases [of "[''gain'' \<mapsto> \<lparr>Default = ''1'', ConfigAttr.Value = ''7''\<rparr>]" "''gain''"]
  by simp

text \<open>
  C10. \<open>SetDiscoveryInterval\<close> and \<open>SetPollingInterval\<close> called with an interval
  \<open>\<le> 0\<close> leave the configured interval as it was and install the handler; with an
  interval \<open>> 0\<close> they set both. No other field of the publisher changes.
\<close>

theorem Set_interval_guarded:
  "(interval \<le> 0 \<longrightarrow>
      snd (SetDiscoveryInterval interval handler publisher)
        = publisher\<lparr>discoveryHandler := handler\<rparr>
      \<and> snd (SetPollingInterval interval handler publisher)
        = publisher\<lparr>pollHandler := handler\<rparr>)
   \<and> (0 < interval \<longrightarrow>
      snd (SetDiscoveryInterval interval handler publisher)
        = publisher\<lparr>discoveryInterval := interval, discoveryHandler := handler\<rparr>
      \<and> snd (SetPollingInterval interval handler publisher)
        = publisher\<lparr>pollInterval := interval, pollHandler := handler\<rparr>)"
  by (simp add: SetDiscoveryInterval_def SetPollingInterval_def)

theorem Set_interval_guarded_witness:
  "snd (SetDiscoveryInterval (- 3) (Some ()) pub1) = pub1\<lparr>discoveryHandler := Some ()\<rparr>
   \<and> discoveryInterval (snd (SetDiscoveryInterval (- 3) (Some ()) pub1)) = 86400
   \<and> snd (SetPollingInterval 0 (Some ()) pub1) = pub1\<lparr>pollHandler := Some ()\<rparr>
   \<and> pollInterval (snd (SetPollingInterval 0 (Some ()) pub1)) = 86400
   \<and> snd (SetDiscoveryInterval 60 None pub1)
       = pub1\<lparr>discoveryInterval := 60, discoveryHandler := None\<rparr>
   \<and> snd (SetPollingInterval 5 (Some ()) pub1)
       = pub1\<lparr>pollInterval := 5, pollHandler := Some ()\<rparr>"
  using Set_interval_guarded [of "- 3" "Some ()" pub1]
    Set_interval_guarded [of 0 "Some ()" pub1]
    Set_interval_guarded [of 60 None pub1]
    Set_interval_guarded [of 5 "Some ()" pub1]
  by (simp add: pub1_def DefaultDiscoveryInterval_def DefaultPollInterval_def)

text \<open>
  C7. \<open>Stop\<close> is idempotent. On a running publisher it clears the running flag, changes
  nothing else, and waits once for the heartbeat loop's exit acknowledgment (the receive
  on the exit channel). On a publisher that is not running it leaves the publisher as it
  is and does not wait. So a second \<open>Stop\<close> changes nothing and does not wait.
\<close>

theorem Stop_idempotent:
  "(isRunning publisher \<longrightarrow>
      snd (Stop publisher) = publisher\<lparr>isRunning := False\<rparr>
      \<and> count_list (fst (Stop publisher)) ExitChannelReceive = 1)
   \<and> (\<not> isRunning publisher \<longrightarrow>
      snd (Stop publisher) = publisher
      \<and> ExitChannelReceive \<notin> set (fst (Stop publisher)))
   \<and> snd (Stop (snd (Stop publisher))) = snd (Stop publisher)
   \<and> ExitChannelReceive \<notin> set (fst (Stop (snd (Stop publisher))))"
  by (simp add: Stop_def)

theorem Stop_idempotent_witness:
  "isRunning (pub1\<lparr>isRunning := True\<rparr>)
   \<and> snd (Stop (pub1\<lparr>isRunning := True\<rparr>)) = pub1
   \<and> count_list (fst (Stop (pub1\<lparr>isRunning := True\<rparr>))) ExitChannelReceive = 1
   \<and> \<not> isRunning pub1
   \<and> snd (Stop pub1) = pub1
   \<and> ExitChannelReceive \<notin> set (fst (Stop pub1))
   \<and> snd (Stop (snd (Stop (pub1\<lparr>isRunning := True\<rparr>)))) = pub1"
  using Stop_idempotent [of "pub1\<lparr>isRunning := True\<rparr>"] Stop_idempotent [of pub1]
  by (simp add: pub1_def)





section \<open>Properties of the publish operations\<close>

text \<open>
  C2, as the code has it. For every destination address with fewer than the minimum
  segment count (6 for \<open>PublishSetInput\<close>, 4 for \<open>PublishNodeConfigure\<close>) no message is
  published. \<open>PublishSetInput\<close> returns an explicit error to its caller;
  \<open>PublishNodeConfigure\<close>, which declares no result, hands back no error.
\<close>

theorem Publish_short_address:
  "(length (Split destination CHR ''/'') < 6 \<longrightarrow>
      returned (PublishSetInput tSet messageSigner timeStampStr destination val sender key) \<noteq> None
      \<and> published (PublishSetInput tSet messageSigner timeStampStr destination val sender key) = [])
   \<and> (length (Split destination CHR ''/'') < 4 \<longrightarrow>
      returned (PublishNodeConfigure tCfg messageSigner timeStampStr destination attr sender key) = None
      \<and> published (PublishNodeConfigure tCfg messageSigner timeStampStr destination attr sender key) = [])"
  by (simp add: PublishSetInput_def PublishNodeConfigure_def Let_def)

theorem Publish_short_address_witness:
  "length (Split ''test/publisher1/node1'' CHR ''/'') < 4
   \<and> returned (PublishSetInput ''$set'' (\<lambda>c. None) ''2020-06-01T10:00:00.000-0700''
         ''test/publisher1/node1'' ''on'' ''test/publisher2'' (None :: unit option)
         :: (unit, unit) outcome) \<noteq> None
   \<and> published (PublishSetInput ''$set'' (\<lambda>c. None) ''2020-06-01T10:00:00.000-0700''
         ''test/publisher1/node1'' ''on'' ''test/publisher2'' (None :: unit option)
         :: (unit, unit) outcome) = []
   \<and> published (PublishNodeConfigure ''$configure'' (\<lambda>c. None) ''2020-06-01T10:00:00.000-0700''
         ''test/publisher1/node1'' () ''test/publisher2'' (None :: unit option)) = []"
  using Publish_short_address [of "''test/publisher1/node1''" "''$set''" "\<lambda>c. None"
      "''2020-06-01T10:00:00.000-0700''" "''on''" "''test/publisher2''" "None :: unit option"
      "''$configure''" "()"]
  by simp

text \<open>
  C2 as stated fails for \<open>PublishNodeConfigure\<close>: for the three-segment address
  \<open>test/publisher1/node1\<close> the caller gets no error.
\<close>

theorem PublishNodeConfigure_short_address_no_error:
  "length (Split ''test/publisher1/node1'' CHR ''/'') < 4
   \<and> returned (PublishNodeConfigure ''$configure'' (\<lambda>c. None) ''2020-06-01T10:00:00.000-0700''
         ''test/publisher1/node1'' () ''test/publisher2'' (None :: unit option)) = None"
  by (simp add: PublishNodeConfigure_def)

text \<open>
  C8. For every destination address with at least the minimum segment count,
  \<open>PublishSetInput\<close> publishes one message, to an address whose segments are those of
  the destination with the one at index 5 replaced by the set message type, and
  \<open>PublishNodeConfigure\<close> likewise with the segment at index 3 replaced by the configure
  message type; every other segment is the destination's. The message types are
  constants of package \<open>types\<close>: any value without a \<open>/\<close> will do.
\<close>

theorem Publish_replaces_one_segment:
  "(6 \<le> length (Split destination CHR ''/'') \<and> CHR ''/'' \<notin> set tSet \<longrightarrow>
      (\<exists>inputAddr msg.
         published (PublishSetInput tSet messageSigner timeStampStr destination val sender key)
           = [PublishObject inputAddr False (SetInputObject msg) key]
         \<and> SetInputMessage.Address msg = inputAddr
         \<and> Split inputAddr CHR ''/'' = (Split destination CHR ''/'')[5 := tSet]
         \<and> length (Split inputAddr CHR ''/'') = length (Split destination CHR ''/'')
         \<and> Split inputAddr CHR ''/'' ! 5 = tSet
         \<and> (\<forall>i. i < length (Split destination CHR ''/'') \<and> i \<noteq> 5 \<longrightarrow>
               Split inputAddr CHR ''/'' ! i = Split destination CHR ''/'' ! i)))
   \<and> (4 \<le> length (Split destination CHR ''/'') \<and> CHR ''/'' \<notin> set tCfg \<longrightarrow>
      (\<exists>configAddr msg.
         published (PublishNodeConfigure tCfg messageSigner timeStampStr destination attr sender key)
           = [PublishObject configAddr False (NodeConfigureObject msg) key]
         \<and> NodeConfigureMessage.Address msg = configAddr
         \<and> Split configAddr CHR ''/'' = (Split destination CHR ''/'')[3 := tCfg]
         \<and> length (Split configAddr CHR ''/'') = length (Split destination CHR ''/'')
         \<and> Split configAddr CHR ''/'' ! 3 = tCfg
         \<and> (\<forall>i. i < length (Split destination CHR ''/'') \<and> i \<noteq> 3 \<longrightarrow>
               Split configAddr CHR ''/'' ! i = Split destination CHR ''/'' ! i)))"
proof (intro conjI impI)
  assume a: "6 \<le> length (Split destination CHR ''/'') \<and> CHR ''/'' \<notin> set tSet"
  let ?segs = "Split destination CHR ''/''"
  let ?addr = "Join (?segs[5 := tSet]) ''/''"
  have sp: "Split ?addr CHR ''/'' = ?segs[5 := tSet]"
    using a Split_update_Join by simp
  have pub: "published (PublishSetInput tSet messageSigner timeStampStr destination val sender key)
      = [PublishObject ?addr False
           (SetInputObject \<lparr>SetInputMessage.Address = ?addr, SetInputMessage.Sender = sender,
              SetInputMessage.Timestamp = timeStampStr, Value = val\<rparr>) key]"
    using a by (simp add: PublishSetInput_def Let_def)
  show "\<exists>inputAddr msg.
         published (PublishSetInput tSet messageSigner timeStampStr destination val sender key)
           = [PublishObject inputAddr False (SetInputObject msg) key]
         \<and> SetInputMessage.Address msg = inputAddr
         \<and> Split inputAddr CHR ''/'' = (Split destination CHR ''/'')[5 := tSet]
         \<and> length (Split inputAddr CHR ''/'') = length (Split destination CHR ''/'')
         \<and> Split inputAddr CHR ''/'' ! 5 = tSet
         \<and> (\<forall>i. i < length (Split destination CHR ''/'') \<and> i \<noteq> 5 \<longrightarrow>
               Split inputAddr CHR ''/'' ! i = Split destination CHR ''/'' ! i)"
    using pub sp a
    by (intro exI [of _ ?addr] exI [of _ "\<lparr>SetInputMessage.Address = ?addr,
          SetInputMessage.Sender = sender, SetInputMessage.Timestamp = timeStampStr,
          Value = val\<rparr>"]) simp
next
  assume a: "4 \<le> length (Split destination CHR ''/'') \<and> CHR ''/'' \<notin> set tCfg"
  let ?segs = "Split destination CHR ''/''"
  let ?addr = "Join (?segs[3 := tCfg]) ''/''"
  have sp: "Split ?addr CHR ''/'' = ?segs[3 := tCfg]"
    using a Split_update_Join by simp
  have pub: "published (PublishNodeConfigure tCfg messageSigner timeStampStr destination attr sender key)
      = [PublishObject ?addr False
           (NodeConfigureObject \<lparr>NodeConfigureMessage.Address = ?addr,
              NodeConfigureMessage.Sender = sender,
              NodeConfigureMessage.Timestamp = timeStampStr, Attr = attr\<rparr>) key]"
    using a by (simp add: PublishNodeConfigure_def Let_def)
  show "\<exists>configAddr msg.
         published (PublishNodeConfigure tCfg messageSigner timeStampStr destination attr sender key)
           = [PublishObject configAddr False (NodeConfigureObject msg) key]
         \<and> NodeConfigureMessage.Address msg = configAddr
         \<and> Split configAddr CHR ''/'' = (Split destination CHR ''/'')[3 := tCfg]
         \<and> length (Split configAddr CHR ''/'') = length (Split destination CHR ''/'')
         \<and> Split configAddr CHR ''/'' ! 3 = tCfg
         \<and> (\<forall>i. i < length (Split destination CHR ''/'') \<and> i \<noteq> 3 \<longrightarrow>
               Split configAddr CHR ''/'' ! i = Split destination CHR ''/'' ! i)"
    using pub sp a
    by (intro exI [of _ ?addr] exI [of _ "\<lparr>NodeConfigureMessage.Address = ?addr,
          NodeConfigureMessage.Sender = sender, NodeConfigureMessage.Timestamp = timeStampStr,
          Attr = attr\<rparr>"]) simp
qed

theorem Publish_replaces_one_segment_witness:
  "6 \<le> length (Split ''test/publisher1/node1/switch/0/$input'' CHR ''/'')
   \<and> CHR ''/'' \<notin> set ''$set'' \<and> CHR ''/'' \<notin> set ''$configure''
   \<and> map (\<lambda>c. case c of PublishObject a r ob k \<Rightarrow> a)
        (published (PublishSetInput ''$set'' (\<lambda>c. None) ''2020-06-01T10:00:00.000-0700''
           ''test/publisher1/node1/switch/0/$input'' ''on'' ''test/publisher2''
           (None :: unit option) :: (unit, unit) outcome))
      = [''test/publisher1/node1/switch/0/$set'']
   \<and> map (\<lambda>c. case c of PublishObject a r ob k \<Rightarrow> a)
        (published (PublishNodeConfigure ''$configure'' (\<lambda>c. None) ''2020-06-01T10:00:00.000-0700''
           ''test/publisher1/node1/switch/0/$input'' () ''test/publisher2''
           (None :: unit option)))
      = [''test/publisher1/node1/$configure/0/$input'']"
  using Publish_replaces_one_segment [of "''test/publisher1/node1/switch/0/$input''" "''$set''"
      "\<lambda>c. None" "''2020-06-01T10:00:00.000-0700''" "''on''" "''test/publisher2''"
      "None :: unit option" "''$configure''" "()"]
  by (simp add: PublishSetInput_def PublishNodeConfigure_def Let_def)


section \<open>Properties of the publisher identity\<close>

text \<open>
  C1. \<open>handleIdentityUpdate\<close> is to replace the publisher's identity only for an
  encrypted, decryptable, validly signed message whose sender is the DSS. The first four
  checks discard the message (\<open>handleIdentityUpdate_failed_check\<close>). The check of the
  sender only logs: an update that passes the first four checks is applied whoever sent
  it (\<open>handleIdentityUpdate_checks_passed\<close>). Here the sender is
  \<open>test/mallory/$identity\<close>, not the DSS address \<open>test/$dss/$identity\<close>; the code warns
  "Identity update discarded" and replaces the private key and the identity.
\<close>

theorem handleIdentityUpdate_accepts_other_sender:
  "Sender forgedIdentity
     \<noteq> MakePublisherIdentityAddress testDeps (domain identityPub1) (DSSPublisherID testDeps)
   \<and> handleIdentityUpdate testDeps ''test/publisher1/$identity''
        (CHR ''E'' # encodeIdentity forgedIdentity) identityPub1
     = ([Logf WarnLevel
           ''handleIdentityUpdate: Sender is %s instead of the DSS. Identity update discarded.''
           [ArgS ''test/mallory/$identity'']],
        identityPub1\<lparr>identityPrivateKey := Some ''mallory'',
                     fullIdentity := Some forgedIdentity\<rparr>)"
proof -
  have dec: "decodeIdentity (encodeIdentity forgedIdentity) = Inr forgedIdentity"
    by (simp add: decodeIdentity_def encodeIdentity_def forgedIdentity_def)
  show ?thesis
    by (simp add: handleIdentityUpdate_def testDeps_def identityPub1_def dec)
       (simp add: forgedIdentity_def)
qed

text \<open>
  C3. A failed key generation is fatal. \<open>CreateIdentity\<close> panics. \<open>NewPublisher\<close>
  logs the error and then panics on \<open>&privKey.PublicKey\<close>, \<open>privKey\<close> being nil; so
  whenever \<open>NewPublisher\<close> returns a publisher, the key generation has succeeded and the
  publisher holds the signing key.
\<close>

theorem key_generation_failure_fatal:
  "(\<exists>msg. CreateIdentity env domain' publisherID' now1 now2 (Inl err) = Inl (Panic msg))
   \<and> snd (NewPublisher EncodeKeys zoneID pubNodeAddress timeStampStr publisherID' persistFolder'
            (Inl err)) = Inl NilPointerDereference
   \<and> (\<forall>publisher.
         snd (NewPublisher EncodeKeys zoneID pubNodeAddress timeStampStr publisherID'
                persistFolder' keygen) = Inr publisher
         \<longrightarrow> (\<exists>k. keygen = Inr k \<and> signPrivateKey publisher = Some k))"
  by (cases keygen) (auto simp: CreateIdentity_def NewPublisher_def Let_def split: prod.splits)

theorem key_generation_failure_fatal_witness:
  "(\<exists>publisher.
      snd (NewPublisher (\<lambda>k. (k, ''public-'' @ k)) ''test'' ''test/publisher1/$publisher/$node''
             ''2020-06-01T10:00:00.000-0700'' ''publisher1'' ''../test'' (Inr ''key1'')
           :: unit event list \<times> (panic + (unit, string) Publisher)) = Inr publisher
      \<and> signPrivateKey publisher = Some ''key1'')
   \<and> snd (NewPublisher (\<lambda>k. (k, ''public-'' @ k)) ''test'' ''test/publisher1/$publisher/$node''
             ''2020-06-01T10:00:00.000-0700'' ''publisher1'' ''../test''
             (Inl ''entropy source failed'')
           :: unit event list \<times> (panic + (unit, string) Publisher)) = Inl NilPointerDereference"
  using key_generation_failure_fatal [of testDeps "''test''" "''publisher1''" 0 0
      "''entropy source failed''" "\<lambda>k. (k, ''public-'' @ k)" "''test''"
      "''test/publisher1/$publisher/$node''" "''2020-06-01T10:00:00.000-0700''" "''../test''"
      "Inr ''key1''"]
  by (simp add: NewPublisher_def)



text \<open>
  C5. \<open>IsIdentityExpired\<close> is true if and only if the formatted current time is
  lexically greater than the identity's \<open>ValidUntil\<close> (the order of byte strings). For
  timestamps in the fixed zero-padded format and the same zone this is the order of the
  local times: a \<open>ValidUntil\<close> in the past gives true, one in the future (a year from
  now, say) gives false.
\<close>

theorem IsIdentityExpired_lexical:
  "(IsIdentityExpired env now identity \<longleftrightarrow> ValidUntil identity < Format env now)
   \<and> (validStamp t \<and> validStamp u \<and> zone t = zone u
        \<and> Format env now = formatStamp t \<and> ValidUntil identity = formatStamp u
      \<longrightarrow> (IsIdentityExpired env now identity \<longleftrightarrow> stampFields u < stampFields t))"
  by (simp add: IsIdentityExpired_def Compare_pos formatStamp_less)

theorem IsIdentityExpired_lexical_witness:
  "IsIdentityExpired testDeps 0
     ((Public forgedIdentity)\<lparr>ValidUntil := ''2020-06-01T09:59:59.000-0700''\<rparr>)
   \<and> \<not> IsIdentityExpired testDeps 0
     ((Public forgedIdentity)\<lparr>ValidUntil := ''2021-06-01T10:00:00.000-0700''\<rparr>)"
proof -
  let ?past = "(Public forgedIdentity)\<lparr>ValidUntil := ''2020-06-01T09:59:59.000-0700''\<rparr>"
  let ?future = "(Public forgedIdentity)\<lparr>ValidUntil := ''2021-06-01T10:00:00.000-0700''\<rparr>"
  let ?before = "noon\<lparr>hour := 9, minute := 59, second := 59\<rparr>"
  let ?after = "noon\<lparr>year := 2021\<rparr>"
  have f: "Format testDeps 0 = formatStamp noon"
    by (simp add: testDeps_def noon_def)
  have v: "validStamp noon" "validStamp ?before" "validStamp ?after"
    by (simp_all add: validStamp_def noon_def)
  have z: "zone noon = zone ?before" "zone noon = zone ?after"
    by simp_all
  have p: "ValidUntil ?past = formatStamp ?before"
    by (simp add: formatStamp_def noon_def pad_numeral digit_def)
  have q: "ValidUntil ?future = formatStamp ?after"
    by (simp add: formatStamp_def noon_def pad_numeral digit_def)
  have "IsIdentityExpired testDeps 0 ?past \<longleftrightarrow> stampFields ?before < stampFields noon"
    using conjunct2 [OF IsIdentityExpired_lexical [of testDeps 0 ?past noon ?before]] f v z p
    by blast
  moreover have "stampFields ?before < stampFields noon"
    by (simp add: stampFields_def noon_def)
  moreover
  have "IsIdentityExpired testDeps 0 ?future \<longleftrightarrow> stampFields ?after < stampFields noon"
    using conjunct2 [OF IsIdentityExpired_lexical [of testDeps 0 ?future noon ?after]] f v z q
    by blast
  moreover have "\<not> stampFields ?after < stampFields noon"
    by (simp add: stampFields_def noon_def)
  ultimately show ?thesis by blast
qed

end
